theory Spec2Isabelle
  imports Complex_Main "HOL-Library.Char_ord" "HOL-Library.List_Lexorder"
begin

section \<open>Data model of \<open>search.py\<close>\<close>

text \<open>
  The values that travel through \<open>SearchEngine\<close>: documents are Python dicts with string
  keys (an association list keeps the insertion order of the dict), their values are the
  JSON-shaped values a search hit carries.
\<close>

datatype pyval =
    PNone
  | PBool bool
  | PInt int
  | PStr string
  | PList "pyval list"
  | PDict "(string \<times> pyval) list"

type_synonym pydict = "(string \<times> pyval) list"

text \<open>The exceptions that reach the caller: of the vectorizer, of \<open>eval\<close>, of the
  backend.\<close>

datatype py_error = ValueError | SyntaxError | EsError string

text \<open>
  The query part of a request body. Each constructor is one of the dict shapes that the
  source writes: \<open>{"match": {f: q}}\<close>, \<open>{"term": {k: v}}\<close>, \<open>{"match_all": {}}\<close>,
  \<open>{"multi_match": {"query": q, "fields": fs}}\<close>, \<open>{"bool": {"must": ms}}\<close> with the optional
  key \<open>"filter"\<close>, and \<open>{"script_score": {"query": q, "script": {"source": s, "params":
  {"query_vector": v}}}}\<close>.
\<close>

datatype es_query =
    Match string string
  | Term string pyval
  | MatchAll
  | MultiMatch string "string list"
  | BoolQ "es_query list" "es_query list option"
  | ScriptScore es_query string "real list"

text \<open>The request body: the keys \<open>"sort"\<close> and \<open>"size"\<close> are absent from some bodies.\<close>

record search_body =
  body_query :: es_query
  body_sort :: "(string \<times> string) list option"
  body_size :: "nat option"

section \<open>Request construction\<close>

text \<open>Python truthiness of the argument \<open>filters: Dict = None\<close>.\<close>

fun truthy_filters :: "pydict option \<Rightarrow> bool" where
  "truthy_filters None = False"
| "truthy_filters (Some []) = False"
| "truthy_filters (Some (kv # kvs)) = True"

text \<open>Lines 29 to 44 of \<open>search_messages\<close>: the body, then the \<open>"filter"\<close> key when
  \<open>filters\<close> is truthy.\<close>

definition search_messages_body :: "string \<Rightarrow> pydict option \<Rightarrow> search_body" where
  "search_messages_body query filters =
     (let must = [Match ''content'' query];
          filter_key =
            (if truthy_filters filters
             then Some (map (\<lambda>(k, v). Term k v) (the filters))
             else None)
      in \<lparr> body_query = BoolQ must filter_key,
           body_sort = Some [(''timestamp'', ''desc'')],
           body_size = Some 50 \<rparr>)"

text \<open>Lines 105 to 114 of \<open>search_rooms\<close>.\<close>

definition search_rooms_body :: "string \<Rightarrow> string \<Rightarrow> search_body" where
  "search_rooms_body query user_id =
     \<lparr> body_query = BoolQ [Match ''name'' query, Term ''members'' (PStr user_id)] None,
       body_sort = None,
       body_size = None \<rparr>"


text \<open>Reading a body: the clauses under \<open>"must"\<close> and under \<open>"filter"\<close> (none when the key
  is absent).\<close>

fun must_clauses :: "es_query \<Rightarrow> es_query list" where
  "must_clauses (BoolQ ms fs) = ms"
| "must_clauses q = []"

fun filter_clauses :: "es_query \<Rightarrow> es_query list" where
  "filter_clauses (BoolQ ms (Some fs)) = fs"
| "filter_clauses q = []"

fun has_filter_key :: "es_query \<Rightarrow> bool" where
  "has_filter_key (BoolQ ms (Some fs)) = True"
| "has_filter_key q = False"

section \<open>The vectorizer\<close>

text \<open>
  \<open>TfidfVectorizer()\<close> with its default parameters, on ASCII text: the text is lowercased,
  its tokens are the maximal runs of word characters that are at least two characters
  long (the pattern \<open>\b\w\w+\b\<close>), the vocabulary is the sorted list of the distinct tokens
  of the documents it is fitted on, and a row is the vector of term counts weighted by the
  smoothed inverse document frequency and scaled to Euclidean length 1. A character beyond
  ASCII separates tokens in this model.
\<close>

definition is_word_char :: "char \<Rightarrow> bool" where
  "is_word_char c =
     (let n = (of_char c :: nat)
      in (48 \<le> n \<and> n \<le> 57) \<or> (65 \<le> n \<and> n \<le> 90) \<or> n = 95 \<or> (97 \<le> n \<and> n \<le> 122))"

definition lower_char :: "char \<Rightarrow> char" where
  "lower_char c =
     (let n = (of_char c :: nat) in if 65 \<le> n \<and> n \<le> 90 then char_of (n + 32) else c)"

fun split_runs :: "string \<Rightarrow> string \<Rightarrow> string list" where
  "split_runs cur [] = [cur]"
| "split_runs cur (c # cs) =
     (if is_word_char c then split_runs (cur @ [c]) cs else cur # split_runs [] cs)"

definition tokenize :: "string \<Rightarrow> string list" where
  "tokenize text = filter (\<lambda>w. 2 \<le> length w) (split_runs [] (map lower_char text))"

definition vocabulary_of :: "string list \<Rightarrow> string list" where
  "vocabulary_of docs = sort (remdups (concat (map tokenize docs)))"

definition doc_freq :: "string list \<Rightarrow> string \<Rightarrow> nat" where
  "doc_freq docs t = length (filter (\<lambda>d. t \<in> set (tokenize d)) docs)"

definition idf :: "string list \<Rightarrow> string \<Rightarrow> real" where
  "idf docs t = ln ((1 + real (length docs)) / (1 + real (doc_freq docs t))) + 1"

definition l2_normalize :: "real list \<Rightarrow> real list" where
  "l2_normalize xs =
     (let n = sqrt (sum_list (map (\<lambda>x. x * x) xs))
      in if n = 0 then xs else map (\<lambda>x. x / n) xs)"

definition tfidf_row :: "string list \<Rightarrow> string list \<Rightarrow> string \<Rightarrow> real list" where
  "tfidf_row vocab docs d =
     l2_normalize (map (\<lambda>t. real (count_list (tokenize d) t) * idf docs t) vocab)"

text \<open>\<open>fit_transform(docs).toarray()\<close>: the vocabulary learnt from \<open>docs\<close> alone and one row
  per document; \<open>ValueError\<close> (empty vocabulary) when the documents hold no token.\<close>

definition fit_transform :: "string list \<Rightarrow> py_error + (string list \<times> real list list)" where
  "fit_transform docs =
     (let vocab = vocabulary_of docs
      in if vocab = [] then Inl ValueError
         else Inr (vocab, map (tfidf_row vocab docs) docs))"

section \<open>The engine and its collaborators\<close>

text \<open>
  A hit of the backend, of which the source reads \<open>_source\<close> only; the backend itself, the
  method \<open>es.search(index=..., body=...)\<close>, is a parameter of the search operations.
\<close>

record hit =
  hit_source :: pydict
  hit_score :: real

type_synonym backend = "string \<Rightarrow> search_body \<Rightarrow> py_error + hit list"

text \<open>Every call that leaves \<open>SearchEngine\<close>, in the order in which it is made.\<close>

datatype io =
    EsSearch string search_body
  | RedisSetex string nat string
  | RedisGet string
  | FitTransform "string list"

text \<open>
  The state behind \<open>self\<close>: the calls made so far, the content of the Redis store (a value
  and the time at which it expires, in seconds) and the vocabulary of \<open>self.vectorizer\<close>
  (\<open>None\<close> until it is fitted).
\<close>

record engine =
  io_trace :: "io list"
  redis :: "string \<rightharpoonup> (string \<times> nat)"
  vectorizer :: "string list option"

definition new_engine :: engine where
  "new_engine = \<lparr> io_trace = [], redis = Map.empty, vectorizer = None \<rparr>"





text \<open>Lines 46 and 47, shared by the four search methods: one call of the backend, then
  the \<open>_source\<close> of every hit. An error of the backend propagates.\<close>

definition es_search :: "backend \<Rightarrow> engine \<Rightarrow> string \<Rightarrow> search_body \<Rightarrow>
    (py_error + pydict list) \<times> engine" where
  "es_search es st index body =
     (let st' = st\<lparr>io_trace := io_trace st @ [EsSearch index body]\<rparr>
      in case es index body of
           Inl e \<Rightarrow> (Inl e, st')
         | Inr hits \<Rightarrow> (Inr (map hit_source hits), st'))"

definition search_messages :: "backend \<Rightarrow> engine \<Rightarrow> string \<Rightarrow> pydict option \<Rightarrow>
    (py_error + pydict list) \<times> engine" where
  "search_messages es st query filters =
     es_search es st ''messages'' (search_messages_body query filters)"


definition search_rooms :: "backend \<Rightarrow> engine \<Rightarrow> string \<Rightarrow> string \<Rightarrow>
    (py_error + pydict list) \<times> engine" where
  "search_rooms es st query user_id =
     es_search es st ''rooms'' (search_rooms_body query user_id)"

text \<open>Line 57, the script of the semantic request.\<close>

definition script_source :: string where
  "script_source =
     ''cosineSimilarity(params.query_vector, doc['' @ [CHR 0x27] @ ''content_vector''
       @ [CHR 0x27] @ '']) + 1.0''"

text \<open>Lines 52 to 63 of \<open>semantic_search\<close>.\<close>

definition semantic_search_body :: "real list \<Rightarrow> search_body" where
  "semantic_search_body query_vector =
     \<lparr> body_query = ScriptScore MatchAll script_source query_vector,
       body_sort = None,
       body_size = Some 20 \<rparr>"

text \<open>\<open>semantic_search\<close>: line 50 fits the vectorizer on the query alone and takes the first
  row; \<open>context\<close> is not read.\<close>

definition semantic_search :: "backend \<Rightarrow> engine \<Rightarrow> string \<Rightarrow> string \<Rightarrow>
    (py_error + pydict list) \<times> engine" where
  "semantic_search es st query context =
     (let st1 = st\<lparr>io_trace := io_trace st @ [FitTransform [query]]\<rparr>
      in case fit_transform [query] of
           Inl e \<Rightarrow> (Inl e, st1)
         | Inr (vocab, rows) \<Rightarrow>
             (let query_vector = rows ! 0;
                  st2 = st1\<lparr>vectorizer := Some vocab\<rparr>
              in es_search es st2 ''messages'' (semantic_search_body query_vector)))"

section \<open>The result cache\<close>

subsection \<open>\<open>str\<close> of a result list\<close>

text \<open>
  \<open>str(results)\<close> writes the display of the list: \<open>None\<close>, \<open>True\<close> and \<open>False\<close> by name, an
  integer in decimal, a string between quotes with its escapes, the items of a list and the
  \<open>key: value\<close> pairs of a dict separated by a comma and a space. A string is quoted with
  \<open>'\<close>, or with \<open>"\<close> when it holds a \<open>'\<close> and no \<open>"\<close>; inside, the quote and the backslash are
  escaped, tab, line feed and carriage return are written \<open>\t\<close>, \<open>\n\<close>, \<open>\r\<close>, and any other
  character outside printable ASCII is written \<open>\xhh\<close>. The model is exact on ASCII text;
  floating-point numbers are not part of it.
\<close>

definition squote :: char where "squote = CHR 0x27"
definition dquote :: char where "dquote = CHR 0x22"
definition backslash :: char where "backslash = CHR 0x5C"










subsection \<open>\<open>eval\<close> of a display\<close>

text \<open>
  \<open>eval\<close> on the text of a display of literals, as \<open>str\<close> writes it: the value the display
  denotes. The recursion of the reader is bounded by the length of the text. Text that is
  no such display (cut short, or with an unknown escape) is a \<open>SyntaxError\<close> here; the
  expressions beyond displays that Python's evaluator also accepts are outside this model.
\<close>

definition is_digit :: "char \<Rightarrow> bool" where
  "is_digit c = (48 \<le> (of_char c :: nat) \<and> (of_char c :: nat) \<le> 57)"

definition digit_val :: "char \<Rightarrow> nat" where
  "digit_val c = of_char c - 48"

definition nat_of_digits :: "string \<Rightarrow> nat" where
  "nat_of_digits ds = foldl (\<lambda>a c. 10 * a + digit_val c) 0 ds"

definition parse_nat :: "string \<Rightarrow> (nat \<times> string) option" where
  "parse_nat s =
     (let ds = takeWhile is_digit s
      in if ds = [] \<or> (hd ds = CHR ''0'' \<and> 1 < length ds) then None
         else Some (nat_of_digits ds, dropWhile is_digit s))"

definition hex_val :: "char \<Rightarrow> nat option" where
  "hex_val c =
     (let n = (of_char c :: nat)
      in if 48 \<le> n \<and> n \<le> 57 then Some (n - 48)
         else if 97 \<le> n \<and> n \<le> 102 then Some (n - 87)
         else if 65 \<le> n \<and> n \<le> 70 then Some (n - 55)
         else None)"

definition unescape :: "char \<Rightarrow> char option" where
  "unescape e =
     (if e = backslash \<or> e = squote \<or> e = dquote then Some e
      else if e = CHR ''t'' then Some (CHR 0x09)
      else if e = CHR ''n'' then Some (CHR 0x0A)
      else if e = CHR ''r'' then Some (CHR 0x0D)
      else None)"

definition printable :: "char \<Rightarrow> bool" where
  "printable c = (32 \<le> (of_char c :: nat) \<and> (of_char c :: nat) < 127)"

fun parse_str_body :: "char \<Rightarrow> string \<Rightarrow> (string \<times> string) option" where
  "parse_str_body q [] = None"
| "parse_str_body q (c # cs) =
     (if c = q then Some ([], cs)
      else if c = backslash then
        (case cs of
           [] \<Rightarrow> None
         | e # r \<Rightarrow>
             if e = CHR ''x'' then
               (case r of
                  h1 # h2 # r' \<Rightarrow>
                    (case (hex_val h1, hex_val h2) of
                       (Some a, Some b) \<Rightarrow>
                         map_option (apfst ((#) (char_of (16 * a + b)))) (parse_str_body q r')
                     | _ \<Rightarrow> None)
                | _ \<Rightarrow> None)
             else
               (case unescape e of
                  None \<Rightarrow> None
                | Some ch \<Rightarrow> map_option (apfst ((#) ch)) (parse_str_body q r)))
      else if printable c then map_option (apfst ((#) c)) (parse_str_body q cs)
      else None)"

definition parse_name :: "string \<Rightarrow> (pyval \<times> string) option" where
  "parse_name s =
     (if take 4 s = ''None'' then Some (PNone, drop 4 s)
      else if take 4 s = ''True'' then Some (PBool True, drop 4 s)
      else if take 5 s = ''False'' then Some (PBool False, drop 5 s)
      else None)"

fun parse_val :: "nat \<Rightarrow> string \<Rightarrow> (pyval \<times> string) option"
  and parse_items :: "nat \<Rightarrow> string \<Rightarrow> (pyval list \<times> string) option"
  and parse_pairs :: "nat \<Rightarrow> string \<Rightarrow> (pydict \<times> string) option" where
  "parse_val 0 s = None"
| "parse_val (Suc n) s =
     (case s of
        [] \<Rightarrow> None
      | c # cs \<Rightarrow>
          if c = CHR ''['' then
            (case cs of
               [] \<Rightarrow> None
             | d # ds \<Rightarrow>
                 if d = CHR '']'' then Some (PList [], ds)
                 else map_option (apfst PList) (parse_items n cs))
          else if c = CHR ''{'' then
            (case cs of
               [] \<Rightarrow> None
             | d # ds \<Rightarrow>
                 if d = CHR ''}'' then Some (PDict [], ds)
                 else map_option (apfst PDict) (parse_pairs n cs))
          else if c = squote \<or> c = dquote then map_option (apfst PStr) (parse_str_body c cs)
          else if c = CHR ''-'' then map_option (apfst (\<lambda>k. PInt (- int k))) (parse_nat cs)
          else if is_digit c then map_option (apfst (\<lambda>k. PInt (int k))) (parse_nat s)
          else parse_name s)"
| "parse_items 0 s = None"
| "parse_items (Suc n) s =
     (case parse_val n s of
        None \<Rightarrow> None
      | Some (v, r) \<Rightarrow>
          (case r of
             [] \<Rightarrow> None
           | c # r' \<Rightarrow>
               if c = CHR '']'' then Some ([v], r')
               else if take 2 r = '', '' then
                 map_option (apfst ((#) v)) (parse_items n (drop 2 r))
               else None))"
| "parse_pairs 0 s = None"
| "parse_pairs (Suc n) s =
     (case s of
        [] \<Rightarrow> None
      | q # cs \<Rightarrow>
          if q = squote \<or> q = dquote then
            (case parse_str_body q cs of
               None \<Rightarrow> None
             | Some (k, r) \<Rightarrow>
                 if take 2 r = '': '' then
                   (case parse_val n (drop 2 r) of
                      None \<Rightarrow> None
                    | Some (v, r1) \<Rightarrow>
                        (case r1 of
                           [] \<Rightarrow> None
                         | c # r2 \<Rightarrow>
                             if c = CHR ''}'' then Some ([(k, v)], r2)
                             else if take 2 r1 = '', '' then
                               map_option (apfst ((#) (k, v))) (parse_pairs n (drop 2 r1))
                             else None))
                 else None)
          else None)"

definition py_eval :: "string \<Rightarrow> py_error + pyval" where
  "py_eval s =
     (case parse_val (length s) s of
        Some (v, []) \<Rightarrow> Inr v
      | _ \<Rightarrow> Inl SyntaxError)"


subsection \<open>The cache methods\<close>

text \<open>The key of lines 121 and 127: \<open>f"search:{query}"\<close>.\<close>

definition cache_key :: "string \<Rightarrow> string" where
  "cache_key query = ''search:'' @ query"

text \<open>
  The key under which the results of a search are filed: \<open>cache_search_results\<close> and
  \<open>get_cached_results\<close> receive the query string only, so the filters and the index of the
  search do not reach the key.
\<close>

definition key_of_search :: "string \<Rightarrow> pydict option \<Rightarrow> string \<Rightarrow> string" where
  "key_of_search query filters index = cache_key query"


definition redis_get :: "engine \<Rightarrow> nat \<Rightarrow> string \<Rightarrow> string option \<times> engine" where
  "redis_get st now name =
     ((case redis st name of
         None \<Rightarrow> None
       | Some (val, expiry) \<Rightarrow> if now < expiry then Some val else None),
      st\<lparr> io_trace := io_trace st @ [RedisGet name] \<rparr>)"


text \<open>
  Lines 126 to 128: \<open>eval(cached) if cached else None\<close>. The evaluator is a parameter; what
  it raises propagates, and the bytes \<open>cached\<close> are false when absent or empty.
\<close>

definition get_cached_results :: "(string \<Rightarrow> py_error + pyval) \<Rightarrow> engine \<Rightarrow> nat \<Rightarrow> string \<Rightarrow>
    (py_error + pyval option) \<times> engine" where
  "get_cached_results evaluate st now query =
     (case redis_get st now (cache_key query) of
        (cached, st') \<Rightarrow>
          ((case cached of
              None \<Rightarrow> Inr None
            | Some bytes \<Rightarrow>
                if bytes = [] then Inr None
                else (case evaluate bytes of Inl e \<Rightarrow> Inl e | Inr v \<Rightarrow> Inr (Some v))),
           st'))"

section \<open>What the backend does with a request\<close>

text \<open>
  A term clause is an exact comparison: a document satisfies \<open>{"term": {f: v}}\<close> when its
  field \<open>f\<close> is \<open>v\<close> or is an array that holds \<open>v\<close>.
\<close>

definition field_has :: "pydict \<Rightarrow> string \<Rightarrow> pyval \<Rightarrow> bool" where
  "field_has d f v =
     (case map_of d f of
        None \<Rightarrow> False
      | Some (PList xs) \<Rightarrow> v \<in> set xs
      | Some x \<Rightarrow> x = v)"

fun term_holds :: "pydict \<Rightarrow> es_query \<Rightarrow> bool" where
  "term_holds d (Term f v) = field_has d f v"
| "term_holds d q = True"

text \<open>The contract of a backend that the search methods rely on: every hit satisfies every
  term clause that the request puts under \<open>must\<close> or under \<open>filter\<close>.\<close>

definition honours_terms :: "backend \<Rightarrow> bool" where
  "honours_terms es =
     (\<forall>index body hits. es index body = Inr hits \<longrightarrow>
        (\<forall>h \<in> set hits.
           \<forall>c \<in> set (must_clauses (body_query body) @ filter_clauses (body_query body)).
             term_holds (hit_source h) c))"

text \<open>
  A backend over a fixed table of indexed documents, to run the methods on concrete
  inputs: a text clause holds when the field shares a word with the query, the clauses of
  a \<open>bool\<close> query are conjoined, and ten hits are returned when the body has no size.
\<close>

definition words_of :: "string \<Rightarrow> string list" where
  "words_of text = filter (\<lambda>w. w \<noteq> []) (split_runs [] (map lower_char text))"

definition text_matches :: "pydict \<Rightarrow> string \<Rightarrow> string \<Rightarrow> bool" where
  "text_matches d f q =
     (case map_of d f of
        Some (PStr s) \<Rightarrow> list_ex (\<lambda>w. w \<in> set (words_of s)) (words_of q)
      | _ \<Rightarrow> False)"

fun doc_matches :: "pydict \<Rightarrow> es_query \<Rightarrow> bool" where
  "doc_matches d (Match f q) = text_matches d f q"
| "doc_matches d (Term f v) = field_has d f v"
| "doc_matches d MatchAll = True"
| "doc_matches d (MultiMatch q fs) =
     list_ex (\<lambda>f. text_matches d (takeWhile (\<lambda>c. c \<noteq> CHR ''^'') f) q) fs"
| "doc_matches d (BoolQ ms fs) =
     (list_all (doc_matches d) ms \<and>
      (case fs of None \<Rightarrow> True | Some cs \<Rightarrow> list_all (doc_matches d) cs))"
| "doc_matches d (ScriptScore q src v) = doc_matches d q"

definition index_backend :: "(string \<times> pydict list) list \<Rightarrow> backend" where
  "index_backend table index body =
     (case map_of table index of
        None \<Rightarrow> Inl (EsError ''index_not_found_exception'')
      | Some docs \<Rightarrow>
          Inr (map (\<lambda>d. \<lparr> hit_source = d, hit_score = 1 \<rparr>)
                 (take (case body_size body of None \<Rightarrow> 10 | Some n \<Rightarrow> n)
                    (filter (\<lambda>d. doc_matches d (body_query body)) docs))))"

text \<open>
  The script of line 57 in exact real arithmetic: the cosine of the angle between the query
  vector and the stored vector, plus 1. The backend has no score for vectors of different
  lengths or of length zero.
\<close>

definition dot :: "real list \<Rightarrow> real list \<Rightarrow> real" where
  "dot xs ys = sum_list (map2 (*) xs ys)"

definition magnitude :: "real list \<Rightarrow> real" where
  "magnitude xs = sqrt (dot xs xs)"

definition cosineSimilarity :: "real list \<Rightarrow> real list \<Rightarrow> real option" where
  "cosineSimilarity q d =
     (if length q \<noteq> length d \<or> magnitude q = 0 \<or> magnitude d = 0 then None
      else Some (dot q d / (magnitude q * magnitude d)))"


section \<open>Sample data\<close>

definition sample_rooms :: "pydict list" where
  "sample_rooms =
     [[(''roomId'', PStr ''r1''), (''name'', PStr ''general chat''),
       (''members'', PList [PStr ''u1'', PStr ''u2''])],
      [(''roomId'', PStr ''r2''), (''name'', PStr ''general staff''),
       (''members'', PList [PStr ''u2''])]]"

definition sample_messages :: "pydict list" where
  "sample_messages =
     [[(''content'', PStr ''hello world''), (''userId'', PStr ''u1''),
       (''roomId'', PStr ''r1''), (''messageType'', PStr ''text'')]]"

definition sample_backend :: backend where
  "sample_backend = index_backend [(''rooms'', sample_rooms), (''messages'', sample_messages)]"

text \<open>A store whose entry for the query \<open>x\<close> is cut short, and one whose entry is a number.\<close>

definition truncated_entry :: engine where
  "truncated_entry = new_engine\<lparr> redis := [cache_key ''x'' \<mapsto> (''[{'', 300)] \<rparr>"

definition number_entry :: engine where
  "number_entry = new_engine\<lparr> redis := [cache_key ''x'' \<mapsto> (''42'', 300)] \<rparr>"

section \<open>Properties of the requests\<close>

lemma es_search_trace:
  "io_trace (snd (es_search es st index body)) = io_trace st @ [EsSearch index body]"
  by (simp add: es_search_def Let_def split: sum.splits)


lemma es_search_vectorizer: "vectorizer (snd (es_search es st index body)) = vectorizer st"
  by (simp add: es_search_def Let_def split: sum.splits)

lemma es_search_result:
  "fst (es_search es st index body) =
     (case es index body of Inl e \<Rightarrow> Inl e | Inr hits \<Rightarrow> Inr (map hit_source hits))"
  by (simp add: es_search_def Let_def split: sum.splits)




lemma tok_hello: "tokenize ''hello'' = [''hello'']" by code_simp
lemma tok_world: "tokenize ''world'' = [''world'']" by code_simp


text \<open>
  Claim C6. For every query string and every filter mapping, \<open>search_messages\<close> sends one
  request, to the index \<open>messages\<close>, whose body has exactly one clause under \<open>must\<close>, the match
  of \<open>content\<close> against the raw query string; its filter clauses are the term clauses of the
  pairs of the mapping, one per pair and in the mapping's order, all under the one \<open>bool\<close>
  query (so they are conjoined); it sorts by \<open>timestamp\<close> descending and asks for 50 hits.
\<close>

theorem search_messages_body_shape:
  "io_trace (snd (search_messages es st query (Some filters))) =
     io_trace st @ [EsSearch ''messages'' (search_messages_body query (Some filters))]
   \<and> must_clauses (body_query (search_messages_body query (Some filters))) =
     [Match ''content'' query]
   \<and> filter_clauses (body_query (search_messages_body query (Some filters))) =
     map (\<lambda>(k, v). Term k v) filters
   \<and> length (filter_clauses (body_query (search_messages_body query (Some filters)))) =
     length filters
   \<and> body_sort (search_messages_body query (Some filters)) = Some [(''timestamp'', ''desc'')]
   \<and> body_size (search_messages_body query (Some filters)) = Some 50"
  by (cases filters) (simp_all add: search_messages_body_def search_messages_def es_search_trace)

text \<open>
  Claim C10. For every query string, \<open>search_messages\<close> called without \<open>filters\<close> and called
  with the empty mapping builds the same body and so makes the same call; that body has no
  \<open>filter\<close> key, and its match clause, sort and size are those of every message search.
\<close>

theorem search_messages_body_no_filters:
  "search_messages_body query None = search_messages_body query (Some [])
   \<and> search_messages es st query None = search_messages es st query (Some [])
   \<and> \<not> has_filter_key (body_query (search_messages_body query None))
   \<and> search_messages_body query None =
       \<lparr> body_query = BoolQ [Match ''content'' query] None,
         body_sort = Some [(''timestamp'', ''desc'')],
         body_size = Some 50 \<rparr>"
  by (simp add: search_messages_body_def search_messages_def)

section \<open>Properties of the search methods\<close>

lemma doc_matches_term: "doc_matches d c \<Longrightarrow> term_holds d c"
  by (cases c) simp_all

lemma doc_matches_clause:
  "doc_matches d q \<Longrightarrow> c \<in> set (must_clauses q @ filter_clauses q) \<Longrightarrow> doc_matches d c"
proof (cases q)
  case (BoolQ ms fs)
  assume "doc_matches d q" "c \<in> set (must_clauses q @ filter_clauses q)"
  with BoolQ show ?thesis
    by (cases fs) (auto simp: list_all_iff)
qed simp_all

lemma index_backend_honours: "honours_terms (index_backend table)"
  unfolding honours_terms_def
proof (intro allI impI ballI)
  fix index body hits h c
  assume r: "index_backend table index body = Inr hits"
    and h: "h \<in> set hits"
    and c: "c \<in> set (must_clauses (body_query body) @ filter_clauses (body_query body))"
  from r h have "doc_matches (hit_source h) (body_query body)"
    by (auto simp: index_backend_def split: option.splits dest!: in_set_takeD)
  with c show "term_holds (hit_source h) c"
    by (blast intro: doc_matches_term doc_matches_clause)
qed

lemma es_search_hits:
  assumes "honours_terms es" and "fst (es_search es st index body) = Inr docs"
    and "d \<in> set docs" and "c \<in> set (must_clauses (body_query body))"
  shows "term_holds d c"
proof -
  from assms(2) obtain hits where hits: "es index body = Inr hits" "docs = map hit_source hits"
    by (auto simp: es_search_result split: sum.splits)
  with assms(3) obtain h where "h \<in> set hits" "d = hit_source h" by auto
  with assms(1,4) hits(1) show ?thesis
    unfolding honours_terms_def by fastforce
qed

text \<open>
  Claim C2. For every query string and every user id, the request of \<open>search_rooms\<close> is the
  one body of lines 105 to 114, whose \<open>must\<close> list holds the term clause of \<open>members\<close> for that
  user id (the method takes no filters from its caller, so nothing can remove the clause);
  and when the backend honours term clauses, every room returned has that user id among its
  members.
\<close>

theorem search_rooms_members_only:
  assumes "honours_terms es"
    and "fst (search_rooms es st query user_id) = Inr rooms"
  shows "io_trace (snd (search_rooms es st query user_id)) =
           io_trace st @ [EsSearch ''rooms'' (search_rooms_body query user_id)]
         \<and> Term ''members'' (PStr user_id) \<in>
             set (must_clauses (body_query (search_rooms_body query user_id)))
         \<and> (\<forall>room \<in> set rooms. field_has room ''members'' (PStr user_id))"
proof (intro conjI ballI)
  show "io_trace (snd (search_rooms es st query user_id)) =
          io_trace st @ [EsSearch ''rooms'' (search_rooms_body query user_id)]"
    by (simp add: search_rooms_def es_search_trace)
  show m: "Term ''members'' (PStr user_id) \<in>
          set (must_clauses (body_query (search_rooms_body query user_id)))"
    by (simp add: search_rooms_body_def)
  fix room
  assume rm: "room \<in> set rooms"
  from assms(2) have "fst (es_search es st ''rooms'' (search_rooms_body query user_id)) = Inr rooms"
    by (simp add: search_rooms_def)
  from es_search_hits [OF assms(1) this rm m]
  show "field_has room ''members'' (PStr user_id)" by simp
qed

theorem search_rooms_members_only_witness:
  "honours_terms sample_backend
   \<and> fst (search_rooms sample_backend new_engine ''general'' ''u1'') = Inr [sample_rooms ! 0]
   \<and> field_has (sample_rooms ! 0) ''members'' (PStr ''u1'')
   \<and> \<not> field_has (sample_rooms ! 1) ''members'' (PStr ''u1'')"
proof -
  have h: "honours_terms sample_backend"
    unfolding sample_backend_def by (rule index_backend_honours)
  have words: "words_of ''general'' = [''general'']"
    "words_of ''general chat'' = [''general'', ''chat'']"
    "words_of ''general staff'' = [''general'', ''staff'']"
    by code_simp+
  have r: "fst (search_rooms sample_backend new_engine ''general'' ''u1'') =
      Inr [sample_rooms ! 0]"
    by (simp add: search_rooms_def es_search_result sample_backend_def index_backend_def
        search_rooms_body_def sample_rooms_def text_matches_def field_has_def words)
  from search_rooms_members_only [OF h r] h r show ?thesis
    by (simp add: sample_rooms_def field_has_def)
qed









lemma fit_hello: "fit_transform [''hello''] = Inr ([''hello''], [[1]])"
  by (simp add: fit_transform_def vocabulary_of_def tok_hello tfidf_row_def idf_def
      doc_freq_def l2_normalize_def)







lemma fit_world: "fit_transform [''world''] = Inr ([''world''], [[1]])"
  by (simp add: fit_transform_def vocabulary_of_def tok_world tfidf_row_def idf_def
      doc_freq_def l2_normalize_def)

text \<open>
  Claim C8, at two queries in a row. \<open>semantic_search\<close> fits the vectorizer anew on each
  query: after the query \<open>hello\<close> the vocabulary is \<open>hello\<close> alone, after the query \<open>world\<close>
  it is \<open>world\<close> alone, and both requests carry the same one-dimensional vector.
\<close>

theorem semantic_search_refits_vectorizer:
  "vectorizer (snd (semantic_search sample_backend new_engine ''hello'' [])) = Some [''hello'']
   \<and> vectorizer (snd (semantic_search sample_backend
        (snd (semantic_search sample_backend new_engine ''hello'' [])) ''world'' [])) =
       Some [''world'']
   \<and> io_trace (snd (semantic_search sample_backend
        (snd (semantic_search sample_backend new_engine ''hello'' [])) ''world'' [])) =
       [FitTransform [''hello''], EsSearch ''messages'' (semantic_search_body [1]),
        FitTransform [''world''], EsSearch ''messages'' (semantic_search_body [1])]"
  by (simp add: semantic_search_def fit_hello fit_world Let_def es_search_vectorizer
      es_search_trace new_engine_def)

section \<open>Properties of the result cache\<close>































text \<open>
  Claim C1, as the code has it. \<open>get_cached_results\<close> returns \<open>None\<close> when the store has no
  live entry for the key or the entry is empty. On any other entry it returns what the
  evaluator makes of the bytes: an exception of the evaluator reaches the caller, and a
  value is returned as it is, whatever its shape.
\<close>

theorem get_cached_results_outcome:
  "(redis st (cache_key query) = None \<longrightarrow>
      fst (get_cached_results evaluate st now query) = Inr None)
   \<and> (redis st (cache_key query) = Some (cached, expiry) \<and> (expiry \<le> now \<or> cached = []) \<longrightarrow>
      fst (get_cached_results evaluate st now query) = Inr None)
   \<and> (redis st (cache_key query) = Some (cached, expiry) \<and> now < expiry \<and> cached \<noteq> []
        \<and> evaluate cached = Inl e \<longrightarrow>
      fst (get_cached_results evaluate st now query) = Inl e)
   \<and> (redis st (cache_key query) = Some (cached, expiry) \<and> now < expiry \<and> cached \<noteq> []
        \<and> evaluate cached = Inr v \<longrightarrow>
      fst (get_cached_results evaluate st now query) = Inr (Some v))"
  by (auto simp: get_cached_results_def redis_get_def)

lemma eval_truncated: "py_eval ''[{'' = Inl SyntaxError"
  by (simp add: py_eval_def squote_def dquote_def)

lemma eval_number: "py_eval ''42'' = Inr (PInt 42)"
  by (simp add: py_eval_def squote_def dquote_def is_digit_def parse_nat_def nat_of_digits_def digit_val_def)

text \<open>
  Claim C1 as stated fails on a stored entry that is cut short, \<open>[{\<close>: the call raises
  \<open>SyntaxError\<close> instead of returning \<open>None\<close>; and on the stored entry \<open>42\<close> the caller
  receives the number, which is no list of documents.
\<close>

theorem malformed_entry_raises:
  "fst (get_cached_results py_eval truncated_entry 0 ''x'') = Inl SyntaxError
   \<and> fst (get_cached_results py_eval number_entry 0 ''x'') = Inr (Some (PInt 42))"
  by (simp add: get_cached_results_def redis_get_def truncated_entry_def number_entry_def
      new_engine_def eval_truncated eval_number)

theorem get_cached_results_outcome_witness:
  "redis new_engine (cache_key ''x'') = None
   \<and> fst (get_cached_results py_eval new_engine 0 ''x'') = Inr None
   \<and> redis truncated_entry (cache_key ''x'') = Some (''[{'', 300)
   \<and> fst (get_cached_results py_eval truncated_entry 300 ''x'') = Inr None
   \<and> py_eval ''[{'' = Inl SyntaxError
   \<and> fst (get_cached_results py_eval truncated_entry 0 ''x'') = Inl SyntaxError
   \<and> redis number_entry (cache_key ''x'') = Some (''42'', 300)
   \<and> py_eval ''42'' = Inr (PInt 42)
   \<and> fst (get_cached_results py_eval number_entry 0 ''x'') = Inr (Some (PInt 42))"
  using get_cached_results_outcome [where st = new_engine and query = "''x''" and evaluate = py_eval
      and now = 0 and cached = "[]" and expiry = 0 and e = SyntaxError and v = PNone]
    get_cached_results_outcome [where st = truncated_entry and query = "''x''"
      and evaluate = py_eval and now = 300 and cached = "''[{''" and expiry = 300
      and e = SyntaxError and v = PNone]
    get_cached_results_outcome [where st = truncated_entry and query = "''x''"
      and evaluate = py_eval and now = 0 and cached = "''[{''" and expiry = 300
      and e = SyntaxError and v = PNone]
    get_cached_results_outcome [where st = number_entry and query = "''x''"
      and evaluate = py_eval and now = 0 and cached = "''42''" and expiry = 300
      and e = SyntaxError and v = "PInt 42"]
  by (simp add: truncated_entry_def number_entry_def new_engine_def eval_truncated eval_number)

text \<open>
  Claim C3, as the code has it. The cache key is \<open>search:\<close> followed by the raw query
  string: it is a function of the query string alone, the same for every filter mapping
  (in any order) and every index, and distinct for distinct query strings.
\<close>

theorem cache_key_query_only:
  "key_of_search query filters index = ''search:'' @ query
   \<and> key_of_search query filters index = key_of_search query filters' index'
   \<and> (key_of_search query filters index = key_of_search query' filters' index'
        \<longleftrightarrow> query = query')"
  by (simp add: key_of_search_def cache_key_def)

text \<open>
  Claim C3 as stated fails on queries that differ in their filters, or in their index, and
  share the query string: they have one key.
\<close>

theorem cache_key_ignores_filters_and_index:
  "key_of_search ''x'' (Some [(''roomId'', PStr ''r1'')]) ''messages'' =
     key_of_search ''x'' (Some [(''roomId'', PStr ''r2'')]) ''messages''
   \<and> key_of_search ''x'' None ''messages'' = key_of_search ''x'' None ''rooms''"
  by (simp add: key_of_search_def)

end
